theory Spec2Isabelle
  imports Complex_Main "HOL-Library.Multiset" "HOL-Library.Char_ord" "HOL-Library.List_Lexorder"
begin

section \<open>IRIDM disaster-management assistant: station resolution and incident log\<close>

text \<open>
  A shallow embedding of \<^verbatim>\<open>iridm_dm_app.py\<close>: the station loader, the distance
  wrapper, the nearest-station resolver, the ETA expression of \<^verbatim>\<open>main\<close>, and the
  incident log with its CSV mirror.

  Conventions of the embedding.
  \<^item> A Python \<^verbatim>\<open>float\<close> is the \<^typ>\<open>real\<close> number that it denotes. Coordinates and
    distances are only compared, and their rounding is left out. The arithmetic of the
    ETA, whose result depends on the rounding, rounds every operation to a double, and
    an operation that does not give a finite double is an error of the conversion to
    an integer that follows it.
  \<^item> A pandas \<^verbatim>\<open>DataFrame\<close> is the list of its rows, in row order.
  \<^item> Library calls whose code is not part of the program (geopy's \<^verbatim>\<open>geodesic\<close>,
    the sorting algorithm behind \<^verbatim>\<open>sort_values\<close>, the clock, the outcome of a file
    write) are parameters of the functions that call them. For the sort there is, next
    to the parameter, a model of the routine of NumPy that the call runs.
  \<^item> An exception is a value of type \<open>error\<close>; a function that can raise returns
    \<open>error + 'a\<close>, and one that mutates session or file state before it raises returns
    the state as well.
\<close>

subsection \<open>Errors\<close>

text \<open>
  The first five constructors are the built-in exceptions that the statements of the
  program and its library calls raise. The program defines no exception class of its
  own and has no \<^verbatim>\<open>raise\<close> and no \<^verbatim>\<open>try\<close> statement; the last four
  constructors are the error kinds that the specification names, present here so that
  statements about them can be written. No function below returns them.
\<close>

datatype error =
    IndexError
  | ValueError
  | OverflowError
  | OSError
  | ParserError
  | EmptyInputError
  | InvalidStatusError
  | SourceMalformedError
  | PersistenceWriteError

subsection \<open>Numbers\<close>

text \<open>
  \<^verbatim>\<open>round(x, 2)\<close> rounds to the nearest multiple of \<open>1/100\<close>, a tie going to the
  even neighbour; \<^verbatim>\<open>int(x)\<close> truncates towards zero.
\<close>

definition round_half_even :: "real \<Rightarrow> int" where
  "round_half_even x =
     (let f = \<lfloor>x\<rfloor>; d = x - of_int f
      in if d < 1 / 2 then f else if 1 / 2 < d then f + 1 else if even f then f else f + 1)"

definition py_round :: "real \<Rightarrow> nat \<Rightarrow> real" where
  "py_round x ndigits = of_int (round_half_even (x * 10 ^ ndigits)) / 10 ^ ndigits"

definition py_int :: "real \<Rightarrow> int" where
  "py_int x = (if 0 \<le> x then \<lfloor>x\<rfloor> else \<lceil>x\<rceil>)"

text \<open>
  The arithmetic of the ETA is the arithmetic of IEEE 754 double precision, and its
  result depends on the rounding. A finite double is a number \<open>m * 2 ^ e\<close> with an
  integer \<open>m\<close>, \<open>\<bar>m\<bar> < 2 ^ 53\<close>, and \<open>- 1074 \<le> e \<le> 971\<close>. A division or a
  multiplication of two finite doubles returns the double that is nearest to the exact
  quotient or product, a tie going to the double with the even \<open>m\<close>, and an infinity
  when that rounding reaches \<open>2 ^ 1024\<close>. \<open>round_double x\<close> is the double for the exact
  value \<open>x\<close>: the exponent \<open>e\<close> is that of the doubles around \<open>x\<close>, 52 below the binary
  exponent of \<open>x\<close> and at least \<open>- 1074\<close>, and \<open>m\<close> is \<open>x / 2 ^ e\<close> rounded to an integer.
  \<open>None\<close> is an infinity.
\<close>

definition round_double :: "real \<Rightarrow> real option" where
  "round_double x =
     (if x = 0 then Some 0
      else
        let e = max (\<lfloor>log 2 \<bar>x\<bar>\<rfloor> - 52) (- 1074);
            y = of_int (round_half_even (x / 2 powi e)) * 2 powi e
        in if 2 ^ 1024 \<le> \<bar>y\<bar> then None else Some y)"

subsection \<open>Stations\<close>

type_synonym coord = "real \<times> real"

record station =
  name :: string
  latitude :: real
  longitude :: real
  phone :: string

text \<open>A row of the frame after the column \<^verbatim>\<open>distance_km\<close> has been added.\<close>

record station_row = station +
  distance_km :: real

definition DEFAULT_FIRE_STATIONS :: "station list" where
  "DEFAULT_FIRE_STATIONS =
     [\<lparr>name = ''Kengeri Fire Station'', latitude = 12.9133, longitude = 77.4488,
        phone = ''+918022851049''\<rparr>,
      \<lparr>name = ''Ram Nagar Fire Station'', latitude = 12.9225, longitude = 77.5051,
        phone = ''+918022917567''\<rparr>]"

definition AVG_FIRE_TRUCK_SPEED_KMPH :: real where
  "AVG_FIRE_TRUCK_SPEED_KMPH = 40"

text \<open>
  \<^verbatim>\<open>load_fire_station_df\<close>. Its argument is what the file system holds under
  \<^verbatim>\<open>fire_stations.csv\<close>: \<open>None\<close> when the path does not exist, otherwise what
  \<^verbatim>\<open>pd.read_csv\<close> makes of the file, a frame (possibly of zero rows, for a file
  that holds only its header line) or the exception it raises. The function does not
  inspect the frame and catches nothing.
\<close>

fun load_fire_station_df :: "(error + station list) option \<Rightarrow> error + station list" where
  "load_fire_station_df (Some read_csv_result) = read_csv_result"
| "load_fire_station_df None = Inr DEFAULT_FIRE_STATIONS"

text \<open>
  \<^verbatim>\<open>haversine_km\<close>: the geodesic distance in kilometres, rounded to two decimals.
  The parameter \<open>geodesic\<close> stands for \<^verbatim>\<open>geodesic(p1, p2).kilometers\<close> of geopy.
\<close>

definition haversine_km :: "(coord \<Rightarrow> coord \<Rightarrow> real) \<Rightarrow> coord \<Rightarrow> coord \<Rightarrow> real" where
  "haversine_km geodesic p1 p2 = py_round (geodesic p1 p2) 2"

text \<open>
  \<^verbatim>\<open>nearest_fire_station\<close>. The frame is copied and every row gets its distance:
  \<^verbatim>\<open>stations_df["distance_km"] = stations_df.apply(..., axis=1)\<close>. On a frame with
  rows \<^verbatim>\<open>apply\<close> returns one value for each row, the new column. On a frame without
  rows it never calls the function and returns an empty copy of the frame, with all the
  columns of the frame, and the assignment of those columns to the one column
  \<^verbatim>\<open>distance_km\<close> raises \<^verbatim>\<open>ValueError\<close>: with a frame without rows the function
  ends there, at its second statement. Otherwise the rows are sorted by the new column
  and row 0 is returned. \<^verbatim>\<open>sort_values\<close> is called without \<^verbatim>\<open>kind\<close>, so pandas
  sorts with its default, \<^verbatim>\<open>quicksort\<close>, which its documentation describes as not
  stable; the parameter \<open>sort_values\<close> stands for that algorithm, applied to the key
  column, and \<open>aquicksort\<close> below is the routine of NumPy that runs. \<^verbatim>\<open>iloc[0]\<close> of
  a frame without rows raises \<^verbatim>\<open>IndexError\<close>.
\<close>

definition add_distance :: "(coord \<Rightarrow> coord \<Rightarrow> real) \<Rightarrow> real \<Rightarrow> real \<Rightarrow> station \<Rightarrow> station_row" where
  "add_distance geodesic lat lon row =
     station.extend row
       (station_row.fields (haversine_km geodesic (lat, lon) (latitude row, longitude row)))"

fun iloc0 :: "'a list \<Rightarrow> error + 'a" where
  "iloc0 [] = Inl IndexError"
| "iloc0 (r # _) = Inr r"

definition nearest_fire_station ::
  "(coord \<Rightarrow> coord \<Rightarrow> real) \<Rightarrow> ((station_row \<Rightarrow> real) \<Rightarrow> station_row list \<Rightarrow> station_row list)
     \<Rightarrow> real \<Rightarrow> real \<Rightarrow> station list \<Rightarrow> error + station_row" where
  "nearest_fire_station geodesic sort_values lat lon stations_df =
     (if stations_df = [] then Inl ValueError
      else
        let df = map (add_distance geodesic lat lon) stations_df;
            df = sort_values distance_km df
        in iloc0 df)"

text \<open>
  The ETA of \<^verbatim>\<open>main\<close>:
  \<^verbatim>\<open>int((distance_km / AVG_FIRE_TRUCK_SPEED_KMPH) * 60)\<close>. \<open>eta_minutes\<close> is that
  expression with the speed as an argument, \<open>eta_min\<close> is what \<^verbatim>\<open>main\<close> computes.
  The arguments are the values of finite floats. \<^verbatim>\<open>distance_km\<close> is an element of the
  row that \<^verbatim>\<open>iloc[0]\<close> returned, a NumPy \<^verbatim>\<open>float64\<close>, and the two integer constants
  are converted to doubles, exactly. The division and the multiplication each round
  their exact result to a double. A result beyond the doubles is an infinity, it stays
  one when multiplied by 60, and \<^verbatim>\<open>int\<close> of an infinity raises \<^verbatim>\<open>OverflowError\<close>.
  A NumPy float divided by 0 is an infinity too, or NaN when the float is 0 itself, for
  which \<^verbatim>\<open>int\<close> raises \<^verbatim>\<open>ValueError\<close>.
\<close>

definition eta_minutes :: "real \<Rightarrow> real \<Rightarrow> error + int" where
  "eta_minutes distance speed_kmph =
     (if speed_kmph = 0 then Inl (if distance = 0 then ValueError else OverflowError)
      else
        case round_double (distance / speed_kmph) of
          None \<Rightarrow> Inl OverflowError
        | Some q \<Rightarrow>
            (case round_double (q * 60) of
               None \<Rightarrow> Inl OverflowError
             | Some m \<Rightarrow> Inr (py_int m)))"

definition eta_min :: "real \<Rightarrow> error + int" where
  "eta_min distance = eta_minutes distance AVG_FIRE_TRUCK_SPEED_KMPH"

subsection \<open>Timestamps\<close>

text \<open>
  \<^verbatim>\<open>datetime.now()\<close> reads the local wall clock; the reading is an argument of the
  functions that take it. \<^verbatim>\<open>isoformat(timespec="seconds")\<close> drops the microseconds
  and prints \<^verbatim>\<open>%04d-%02d-%02dT%02d:%02d:%02d\<close>.
\<close>

record datetime =
  year :: nat
  month :: nat
  day :: nat
  hour :: nat
  minute :: nat
  second :: nat
  microsecond :: nat

definition digit :: "nat \<Rightarrow> char" where
  "digit d = ''0123456789'' ! d"

fun dec :: "nat \<Rightarrow> string" where
  "dec n = (if n < 10 then [digit n] else dec (n div 10) @ [digit (n mod 10)])"

definition zero_pad :: "nat \<Rightarrow> nat \<Rightarrow> string" where
  "zero_pad width n = replicate (width - length (dec n)) CHR ''0'' @ dec n"

definition isoformat_seconds :: "datetime \<Rightarrow> string" where
  "isoformat_seconds dt =
     zero_pad 4 (year dt) @ ''-'' @ zero_pad 2 (month dt) @ ''-'' @ zero_pad 2 (day dt) @ ''T'' @
     zero_pad 2 (hour dt) @ '':'' @ zero_pad 2 (minute dt) @ '':'' @ zero_pad 2 (second dt)"

text \<open>
  The values a \<^verbatim>\<open>datetime\<close> can hold, and the order in which Python compares two
  of them: field by field, from the year down to the microsecond.
\<close>

definition valid_datetime :: "datetime \<Rightarrow> bool" where
  "valid_datetime dt \<longleftrightarrow>
     1 \<le> year dt \<and> year dt \<le> 9999 \<and> 1 \<le> month dt \<and> month dt \<le> 12 \<and>
     1 \<le> day dt \<and> day dt \<le> 31 \<and> hour dt < 24 \<and> minute dt < 60 \<and> second dt < 60 \<and>
     microsecond dt < 1000000"

definition datetime_key :: "datetime \<Rightarrow> nat list" where
  "datetime_key dt =
     [year dt, month dt, day dt, hour dt, minute dt, second dt, microsecond dt]"

definition datetime_le :: "datetime \<Rightarrow> datetime \<Rightarrow> bool" where
  "datetime_le a b \<longleftrightarrow> datetime_key a \<le> datetime_key b"

text \<open>The fields that the printed timestamp shows.\<close>

definition seconds_key :: "datetime \<Rightarrow> nat list" where
  "seconds_key dt = [year dt, month dt, day dt, hour dt, minute dt, second dt]"

subsection \<open>The incident log\<close>

text \<open>
  A log entry is a dictionary with the keys \<^verbatim>\<open>timestamp\<close>, \<^verbatim>\<open>status\<close>,
  \<^verbatim>\<open>location\<close> and \<^verbatim>\<open>notes\<close>. \<^verbatim>\<open>log_event\<close> stores strings under them;
  an entry that \<^verbatim>\<open>load_existing_log\<close> read from the file can hold the float NaN,
  which is how pandas represents a missing value. The same record with \<open>string\<close>
  fields is a data line of the CSV file.
\<close>

datatype cell = Str string | NaN

record 'v entry =
  timestamp :: 'v
  status :: 'v
  location :: 'v
  "notes" :: 'v

definition map_entry :: "('a \<Rightarrow> 'b) \<Rightarrow> 'a entry \<Rightarrow> 'b entry" where
  "map_entry f e =
     \<lparr>timestamp = f (timestamp e), status = f (status e), location = f (location e),
      notes = f (notes e)\<rparr>"

text \<open>
  What \<^verbatim>\<open>incident_log.csv\<close> holds: a table with the header line of the four
  columns and a list of data lines, or bytes that \<^verbatim>\<open>pd.read_csv\<close> rejects. The
  text layer of CSV (separators, quoting) is not represented: a data line is the
  texts of its four fields.
\<close>

datatype file_content = Table "string entry list" | Unparsable

text \<open>
  \<^verbatim>\<open>DataFrame.to_csv(LOG_FILE, index=False)\<close> writes a string as it is and a missing
  value as the empty text (\<^verbatim>\<open>na_rep=''\<close>).
\<close>

fun cell_text :: "cell \<Rightarrow> string" where
  "cell_text (Str s) = s"
| "cell_text NaN = []"

definition to_csv :: "cell entry list \<Rightarrow> file_content" where
  "to_csv df = Table (map (map_entry cell_text) df)"

text \<open>
  \<^verbatim>\<open>pd.read_csv(LOG_FILE)\<close> is called with its defaults, among them
  \<^verbatim>\<open>keep_default_na=True\<close>: a field whose text is one of the default missing-value
  markers, the empty text among them, is read as NaN. Every other field is kept as its
  text. (pandas also converts a column all of whose fields are numerals or booleans to
  that type; the columns written by this program hold ISO timestamps, status words and
  location names, and that conversion is not represented.)
\<close>

definition STR_NA_VALUES :: "string list" where
  "STR_NA_VALUES =
     ['''', ''#N/A'', ''#N/A N/A'', ''#NA'', ''-1.#IND'', ''-1.#QNAN'', ''-NaN'', ''-nan'',
      ''1.#IND'', ''1.#QNAN'', ''<NA>'', ''N/A'', ''NA'', ''NULL'', ''NaN'', ''None'',
      ''n/a'', ''nan'', ''null'']"

definition parse_field :: "string \<Rightarrow> cell" where
  "parse_field s = (if s \<in> set STR_NA_VALUES then NaN else Str s)"

fun read_csv :: "file_content \<Rightarrow> error + cell entry list" where
  "read_csv (Table rows) = Inr (map (map_entry parse_field) rows)"
| "read_csv Unparsable = Inl ParserError"

text \<open>
  The state that the log functions read and write: \<^verbatim>\<open>st.session_state\<close>, where
  \<open>None\<close> says that the key \<^verbatim>\<open>log\<close> is absent, and the file under
  \<^verbatim>\<open>LOG_FILE\<close>, where \<open>None\<close> says that the path does not exist.
\<close>

record world =
  session_log :: "cell entry list option"
  log_file :: "file_content option"

text \<open>
  The outcome of the write is decided by the file system: the file is written, or the
  write raises \<^verbatim>\<open>OSError\<close> and leaves behind whatever it leaves (the old file, a
  truncated one, none).
\<close>

datatype write_outcome = Written | Failed "file_content option"

text \<open>
  \<^verbatim>\<open>log_event(status, location, notes="")\<close>. The default of \<^verbatim>\<open>notes\<close> is the
  \<open>None\<close> of the argument. The entry is appended to the session log before the file
  is written; nothing catches the exception of the write.
\<close>

definition new_entry :: "datetime \<Rightarrow> string \<Rightarrow> string \<Rightarrow> string option \<Rightarrow> cell entry" where
  "new_entry now status_arg location_arg notes_arg =
     \<lparr>timestamp = Str (isoformat_seconds now), status = Str status_arg,
      location = Str location_arg,
      notes = Str (case notes_arg of None \<Rightarrow> [] | Some n \<Rightarrow> n)\<rparr>"

definition log_event ::
  "datetime \<Rightarrow> write_outcome \<Rightarrow> string \<Rightarrow> string \<Rightarrow> string option \<Rightarrow> world
     \<Rightarrow> (error + unit) \<times> world" where
  "log_event now outcome status_arg location_arg notes_arg w =
     (let entry = new_entry now status_arg location_arg notes_arg;
          w = (if session_log w = None then w\<lparr>session_log := Some []\<rparr> else w);
          w = w\<lparr>session_log := Some (the (session_log w) @ [entry])\<rparr>
      in case outcome of
           Written \<Rightarrow> (Inr (), w\<lparr>log_file := Some (to_csv (the (session_log w)))\<rparr>)
         | Failed leftover \<Rightarrow> (Inl OSError, w\<lparr>log_file := leftover\<rparr>))"

text \<open>\<^verbatim>\<open>load_existing_log\<close>, with \<^verbatim>\<open>to_dict("records")\<close> the list of the rows.\<close>

definition load_existing_log :: "world \<Rightarrow> error + world" where
  "load_existing_log w =
     (case log_file w of
        Some content \<Rightarrow>
          if session_log w = None then
            (case read_csv content of
               Inl e \<Rightarrow> Inl e
             | Inr records \<Rightarrow> Inr (w\<lparr>session_log := Some records\<rparr>))
          else Inr w
      | None \<Rightarrow> Inr w)"

text \<open>
  The two buttons of the fire workflow in \<^verbatim>\<open>main\<close>. The location is
  \<^verbatim>\<open>selected_loc_name or "GPS"\<close>; after \<^verbatim>\<open>log_event\<close> has returned, a success
  message is shown. \<^verbatim>\<open>main\<close> has no handler around the call: an exception of
  \<^verbatim>\<open>log_event\<close> ends the run of the script.
\<close>

datatype message = Call_logged | Marked_resolved

definition or_GPS :: "string option \<Rightarrow> string" where
  "or_GPS selected_loc_name =
     (case selected_loc_name of None \<Rightarrow> ''GPS'' | Some n \<Rightarrow> if n = [] then ''GPS'' else n)"

definition button_dial ::
  "datetime \<Rightarrow> write_outcome \<Rightarrow> string option \<Rightarrow> world \<Rightarrow> (error + message) \<times> world" where
  "button_dial now outcome selected_loc_name w =
     (case log_event now outcome ''CALL_PLACED'' (or_GPS selected_loc_name) None w of
        (Inl e, w') \<Rightarrow> (Inl e, w')
      | (Inr _, w') \<Rightarrow> (Inr Call_logged, w'))"

definition button_resolved ::
  "datetime \<Rightarrow> write_outcome \<Rightarrow> string option \<Rightarrow> world \<Rightarrow> (error + message) \<times> world" where
  "button_resolved now outcome selected_loc_name w =
     (case log_event now outcome ''RESOLVED'' (or_GPS selected_loc_name) None w of
        (Inl e, w') \<Rightarrow> (Inl e, w')
      | (Inr _, w') \<Rightarrow> (Inr Marked_resolved, w'))"

subsection \<open>The quicksort behind \<^verbatim>\<open>sort_values\<close>\<close>

text \<open>
  pandas sorts a frame by one column with its \<^verbatim>\<open>nargsort\<close>, which calls
  \<^verbatim>\<open>argsort(kind="quicksort")\<close> of the NumPy array of the column and reorders the rows
  by the result. The definitions of this subsection follow the routine of NumPy behind
  that call, \<^verbatim>\<open>aquicksort_\<close> of \<^verbatim>\<open>npysort/quicksort.cpp\<close>, in its generic form; a
  build of NumPy that selects a vectorised routine for the processor is not covered.
  The routine sorts an array \<^verbatim>\<open>tosort\<close> of row numbers by the keys
  \<^verbatim>\<open>v[tosort[i]]\<close>. Here the array \<open>a\<close> holds the rows themselves and \<open>f\<close> is the key
  of a row; the pointers into the array are indices, and \<open>p_i\<close> is the pointer
  \<^verbatim>\<open>pi\<close> of the source. The comparison is \<open><\<close> on the keys, none of which is NaN:
  pandas takes the rows with a NaN key out before it sorts.
\<close>

definition INTP_SWAP :: "nat \<Rightarrow> nat \<Rightarrow> 'a list \<Rightarrow> 'a list" where
  "INTP_SWAP i j a = a[i := a ! j, j := a ! i]"

text \<open>
  \<^verbatim>\<open>npy_get_msb\<close> counts the right shifts that leave a non-zero number; twice its
  value for the length of the array is the depth counter that the routine starts with.
\<close>

fun npy_get_msb :: "nat \<Rightarrow> int" where
  "npy_get_msb unum = (if unum div 2 = 0 then 0 else npy_get_msb (unum div 2) + 1)"

text \<open>
  The two scans of the partition, \<^verbatim>\<open>do ++pi; while (v[*pi] < vp)\<close> and
  \<^verbatim>\<open>do --pj; while (vp < v[*pj])\<close>. In the source they have no bound: the pivot,
  which is at \<^verbatim>\<open>pr - 1\<close>, stops the first one, and the element at \<^verbatim>\<open>pl\<close>, which
  is not greater than the pivot, stops the second. The conditions \<open>p_i < pr\<close> and
  \<open>pl < pj\<close> of the definitions say so.
\<close>

function scan_up :: "('a \<Rightarrow> real) \<Rightarrow> real \<Rightarrow> 'a list \<Rightarrow> nat \<Rightarrow> nat \<Rightarrow> nat" where
  "scan_up f vp a pr p_i =
     (let p_i = p_i + 1
      in if p_i < pr \<and> f (a ! p_i) < vp then scan_up f vp a pr p_i else p_i)"
  by pat_completeness auto
termination
  by (relation "measure (\<lambda>(f, vp, a, pr, p_i). pr - p_i)") auto

function scan_down :: "('a \<Rightarrow> real) \<Rightarrow> real \<Rightarrow> 'a list \<Rightarrow> nat \<Rightarrow> nat \<Rightarrow> nat" where
  "scan_down f vp a pl pj =
     (let pj = pj - 1
      in if pl < pj \<and> vp < f (a ! pj) then scan_down f vp a pl pj else pj)"
  by pat_completeness auto
termination
  by (relation "measure (\<lambda>(f, vp, a, pl, pj). pj)") auto

declare scan_up.simps [simp del] scan_down.simps [simp del] npy_get_msb.simps [simp del]



lemma scan_down_le: "scan_down f vp a pl pj \<le> pj - 1"
  by (induction f vp a pl pj rule: scan_down.induct)
    (subst scan_down.simps, auto simp: Let_def)

function partition_loop ::
  "('a \<Rightarrow> real) \<Rightarrow> real \<Rightarrow> 'a list \<Rightarrow> nat \<Rightarrow> nat \<Rightarrow> nat \<Rightarrow> nat \<Rightarrow> 'a list \<times> nat" where
  "partition_loop f vp a pl pr p_i pj =
     (let p_i = scan_up f vp a pr p_i;
          pj = scan_down f vp a pl pj
      in if p_i \<ge> pj then (a, p_i) else partition_loop f vp (INTP_SWAP p_i pj a) pl pr p_i pj)"
  by pat_completeness auto
termination
proof (relation "measure (\<lambda>(f, vp, a, pl, pr, p_i, pj). pj)", goal_cases)
  case 1
  then show ?case by simp
next
  case (2 f vp a pl pr p_i pj x xa)
  have "xa \<le> pj - 1" unfolding 2(2) by (rule scan_down_le)
  moreover have "0 < xa" using 2(3) by simp
  ultimately show ?case by simp
qed



text \<open>
  The insertion sort of a range: the element at \<open>p_i\<close> goes down past every element
  before it with a greater key, \<^verbatim>\<open>while (pj > pl && vp < v[*pk])\<close> with
  \<^verbatim>\<open>pk = pj - 1\<close>, the elements passed moving up by one place.
\<close>

function insertion_shift :: "('a \<Rightarrow> real) \<Rightarrow> 'a \<Rightarrow> 'a list \<Rightarrow> nat \<Rightarrow> nat \<Rightarrow> 'a list" where
  "insertion_shift f vi a pl pj =
     (if pl < pj \<and> f vi < f (a ! (pj - 1))
      then insertion_shift f vi (a[pj := a ! (pj - 1)]) pl (pj - 1)
      else a[pj := vi])"
  by pat_completeness auto
termination
  by (relation "measure (\<lambda>(f, vi, a, pl, pj). pj)") auto

function insertion_loop :: "('a \<Rightarrow> real) \<Rightarrow> 'a list \<Rightarrow> nat \<Rightarrow> nat \<Rightarrow> nat \<Rightarrow> 'a list" where
  "insertion_loop f a pl pr p_i =
     (if p_i \<le> pr
      then insertion_loop f (insertion_shift f (a ! p_i) a pl p_i) pl pr (p_i + 1)
      else a)"
  by pat_completeness auto
termination
  by (relation "measure (\<lambda>(f, a, pl, pr, p_i). pr + 1 - p_i)") auto

declare insertion_shift.simps [simp del] insertion_loop.simps [simp del]
  partition_loop.simps [simp del]








subsection \<open>Instances of the library parameters\<close>

text \<open>
  To run the model on concrete inputs its library parameters need values. \<open>taxicab\<close> is
  a distance on coordinates that stands in for the geodesic. For the sort,
  \<^const>\<open>sort_key\<close> of the list library returns the rows of its argument in ascending
  key order, which is what pandas promises of \<^verbatim>\<open>sort_values\<close>, and \<open>aquicksort\<close>
  above is the sort that the call of the program runs.
\<close>

definition taxicab :: "coord \<Rightarrow> coord \<Rightarrow> real" where
  "taxicab p1 p2 = \<bar>fst p1 - fst p2\<bar> + \<bar>snd p1 - snd p2\<bar>"

section \<open>Properties of the resolver and of the ETA\<close>


lemma truncate_add_distance: "station.truncate (add_distance g lat lon s) = s"
  by (simp add: add_distance_def station.defs station_row.defs)




lemma round_half_even_nonneg: "0 \<le> z \<Longrightarrow> 0 \<le> round_half_even z"
  by (simp add: round_half_even_def Let_def)

lemma round_half_even_le: "z \<le> of_int n \<Longrightarrow> round_half_even z \<le> n"
proof -
  assume a: "z \<le> of_int n"
  then have f: "\<lfloor>z\<rfloor> \<le> n" by (simp add: floor_le_iff) 
  show ?thesis
  proof (cases "\<lfloor>z\<rfloor> = n")
    case True
    then have "of_int n \<le> z" by (metis of_int_floor_le)
    with a have "z = of_int n" by simp
    then show ?thesis by (simp add: round_half_even_def)
  next
    case False
    with f have "\<lfloor>z\<rfloor> + 1 \<le> n" by simp
    then show ?thesis by (simp add: round_half_even_def Let_def)
  qed
qed

lemma binade_bounds:
  assumes "0 < x"
  shows "2 powi \<lfloor>log 2 x\<rfloor> \<le> x" and "x < 2 powi (\<lfloor>log 2 x\<rfloor> + 1)"
proof -
  have a: "(2::real) powr (of_int \<lfloor>log 2 x\<rfloor>) = 2 powi \<lfloor>log 2 x\<rfloor>"
    by (simp add: powr_real_of_int')
  have b: "(2::real) powr (of_int (\<lfloor>log 2 x\<rfloor> + 1)) = 2 powi (\<lfloor>log 2 x\<rfloor> + 1)"
    by (rule powr_real_of_int') simp_all
  from floor_log_eq_powr_iff[of x 2 "\<lfloor>log 2 x\<rfloor>"] assms
  have "2 powr (of_int \<lfloor>log 2 x\<rfloor>) \<le> x \<and> x < 2 powr (of_int (\<lfloor>log 2 x\<rfloor> + 1))"
    by simp
  with a b show "2 powi \<lfloor>log 2 x\<rfloor> \<le> x" and "x < 2 powi (\<lfloor>log 2 x\<rfloor> + 1)"
    by simp_all
qed

lemma binade_eqI:
  assumes "2 powi k \<le> x" "x < 2 powi (k + 1)"
  shows "\<lfloor>log 2 x\<rfloor> = k"
proof -
  have "0 < (2::real) powi k" by simp
  with assms(1) have x: "0 < x" by linarith
  have a: "(2::real) powr (of_int k) = 2 powi k"
    by (simp add: powr_real_of_int')
  have b: "(2::real) powr (of_int (k + 1)) = 2 powi (k + 1)"
    by (rule powr_real_of_int') simp_all
  from assms a b have "2 powr (of_int k) \<le> x \<and> x < 2 powr (of_int (k + 1))" by simp
  with floor_log_eq_powr_iff[of x 2 k] x show ?thesis by simp
qed


lemma round_double_bounded:
  assumes x: "0 < x" and xK: "x < 2 powi K" and K: "- 1021 \<le> K" "K \<le> 1023"
  shows "\<exists>y. round_double x = Some y \<and> 0 \<le> y \<and> y \<le> 2 powi K"
proof -
  define L where "L = \<lfloor>log 2 x\<rfloor>"
  define e where "e = max (L - 52) (- 1074)"
  define z where "z = x / (2::real) powi e"
  define y where "y = real_of_int (round_half_even z) * 2 powi e"
  have lo: "2 powi L \<le> x" and hi: "x < 2 powi (L + 1)"
    using binade_bounds[OF x] by (simp_all add: L_def)
  have LK: "L < K"
  proof (rule ccontr)
    assume "\<not> L < K"
    then have "(2::real) powi K \<le> 2 powi L" by (intro power_int_increasing) simp_all
    with lo xK show False by linarith
  qed
  have eK: "e + 53 \<le> K" using LK K by (simp add: e_def)
  have Le: "L + 1 \<le> e + 53" by (simp add: e_def)
  have p: "(2::real) powi (e + 53) = 2 powi e * 2 ^ 53"
    by (simp add: power_int_add)
  have "x < 2 powi (e + 53)"
    using hi power_int_increasing[OF Le, of "2::real"] by simp
  then have "x < 2 powi e * 2 ^ 53" using p by simp
  then have "z < 2 ^ 53" by (simp add: z_def field_simps)
  then have "z \<le> of_int (2 ^ 53)" by simp
  then have r1: "round_half_even z \<le> 2 ^ 53" by (rule round_half_even_le)
  have "0 \<le> z" using x by (simp add: z_def)
  then have r0: "0 \<le> round_half_even z" by (rule round_half_even_nonneg)
  have y0: "0 \<le> y" using r0 by (simp add: y_def)
  have "real_of_int (round_half_even z) \<le> 2 ^ 53" using r1 by (metis of_int_le_iff of_int_numeral of_int_power)
  then have "y \<le> 2 ^ 53 * 2 powi e" by (simp add: y_def)
  also have "\<dots> = 2 powi (e + 53)" using p by simp
  also have "\<dots> \<le> 2 powi K" using eK by (intro power_int_increasing) simp_all
  finally have yK: "y \<le> 2 powi K" .
  have "(2::real) powi K \<le> 2 powi 1023" using K by (intro power_int_increasing) simp_all
  also have "\<dots> < 2 ^ 1024" by simp
  finally have "\<not> 2 ^ 1024 \<le> \<bar>y\<bar>" using yK y0 by simp
  then have "round_double x = Some y"
    using x by (simp add: round_double_def Let_def y_def z_def e_def L_def)
  with y0 yK show ?thesis by blast
qed

lemma round_double_binade:
  assumes lo: "2 powi k \<le> x" and hi: "x < 2 powi (k + 1)" and k: "- 1022 \<le> k" "k \<le> 1022"
  shows "round_double x = Some (of_int (round_half_even (x / 2 powi (k - 52))) * 2 powi (k - 52))"
proof -
  have "0 < (2::real) powi k" by simp
  with lo have x: "0 < x" by linarith
  have L: "\<lfloor>log 2 x\<rfloor> = k" using lo hi by (rule binade_eqI)
  from round_double_bounded[OF x hi] k obtain y where "round_double x = Some y" by auto
  then show ?thesis
    using x k L by (simp add: round_double_def Let_def split: if_splits)
qed

lemma round_double_zero: "round_double 0 = Some 0"
  by (simp add: round_double_def)

lemma round_double_nonneg:
  assumes "0 \<le> x" "round_double x = Some y"
  shows "0 \<le> y"
proof (cases "x = 0")
  case True
  then show ?thesis using assms by (simp add: round_double_def)
next
  case False
  with assms(1) have "0 \<le> x / 2 powi (max (\<lfloor>log 2 \<bar>x\<bar>\<rfloor> - 52) (- 1074))" by simp
  then have "0 \<le> round_half_even (x / 2 powi (max (\<lfloor>log 2 \<bar>x\<bar>\<rfloor> - 52) (- 1074)))"
    by (rule round_half_even_nonneg)
  then show ?thesis using assms False
    by (auto simp add: round_double_def Let_def split: if_splits)
qed

text \<open>The two operations of the ETA at 2.5 km and at 82 km, for the speed 40.\<close>

lemma round_double_1_16: "round_double (1 / 16) = Some (1 / 16)"
  using round_double_binade[of "- 4" "1 / 16"] by (simp add: round_half_even_def)

lemma round_double_15_4: "round_double (15 / 4) = Some (15 / 4)"
  using round_double_binade[of 1 "15 / 4"] by (simp add: round_half_even_def)

lemma round_double_41_20: "round_double (41 / 20) = Some (4616189618054758 / 2 ^ 51)"
  using round_double_binade[of 1 "41 / 20"] by (simp add: round_half_even_def)

lemma round_double_123:
  "round_double (4616189618054758 / 2 ^ 51 * 60) = Some (8655355533852671 / 2 ^ 46)"
  using round_double_binade[of 6 "4616189618054758 / 2 ^ 51 * 60"]
  by (simp add: round_half_even_def)

text \<open>
  C9, as amended. For a distance \<open>d \<ge> 0\<close> and a speed \<open>s > 0\<close> the ETA expression
  returns the floor of the double that the two rounded operations produce, or raises
  \<^verbatim>\<open>OverflowError\<close> when one of them overflows; a number it returns is not negative;
  it does return a number when \<open>d / s < 2 ^ 1000\<close>, and that number is 0 for the
  distance 0.
\<close>

theorem eta_minutes_is_floor:
  assumes "0 \<le> d" and "0 < s"
  shows "eta_minutes d s =
           (case Option.bind (round_double (d / s)) (\<lambda>q. round_double (q * 60)) of
              None \<Rightarrow> Inl OverflowError
            | Some m \<Rightarrow> Inr \<lfloor>m\<rfloor>) \<and>
         (\<forall>n. eta_minutes d s = Inr n \<longrightarrow> 0 \<le> n) \<and>
         (d / s < 2 ^ 1000 \<longrightarrow> (\<exists>n. eta_minutes d s = Inr n)) \<and>
         eta_minutes 0 s = Inr 0"
proof (intro conjI)
  have ds: "0 \<le> d / s" using assms by simp
  have fl: "py_int m = \<lfloor>m\<rfloor> \<and> 0 \<le> \<lfloor>m\<rfloor>"
    if "round_double (d / s) = Some q" "round_double (q * 60) = Some m" for q m
  proof -
    have "0 \<le> q" using ds that(1) by (rule round_double_nonneg)
    then have "0 \<le> q * 60" by simp
    then have "0 \<le> m" using that(2) by (rule round_double_nonneg)
    then show ?thesis by (simp add: py_int_def)
  qed
  show eq: "eta_minutes d s =
           (case Option.bind (round_double (d / s)) (\<lambda>q. round_double (q * 60)) of
              None \<Rightarrow> Inl OverflowError
            | Some m \<Rightarrow> Inr \<lfloor>m\<rfloor>)"
    using assms(2) fl by (auto simp add: eta_minutes_def split: option.splits)
  show "\<forall>n. eta_minutes d s = Inr n \<longrightarrow> 0 \<le> n"
    using assms(2) fl by (auto simp add: eta_minutes_def split: option.splits)
  show "d / s < 2 ^ 1000 \<longrightarrow> (\<exists>n. eta_minutes d s = Inr n)"
  proof
    assume b: "d / s < 2 ^ 1000"
    have "\<exists>q. round_double (d / s) = Some q \<and> 0 \<le> q \<and> q \<le> 2 ^ 1000"
    proof (cases "d / s = 0")
      case True
      then have "round_double (d / s) = Some 0" by (simp only: round_double_zero)
      then show ?thesis by simp
    next
      case False
      with ds have "0 < d / s" by linarith
      from round_double_bounded[OF this, of 1000] b show ?thesis by simp
    qed
    then obtain q where q: "round_double (d / s) = Some q" "0 \<le> q" "q \<le> 2 ^ 1000"
      by blast
    have "\<exists>m. round_double (q * 60) = Some m"
    proof (cases "q = 0")
      case True
      then have "round_double (q * 60) = Some 0" by (simp add: round_double_zero)
      then show ?thesis by simp
    next
      case False
      with q(2) have p: "0 < q * 60" by linarith
      have "q * 60 \<le> 2 ^ 1000 * 60" using q(3) by simp
      also have "\<dots> < 2 ^ 1000 * (2 ^ 6 :: real)" by simp
      also have "\<dots> = 2 powi 1006" by simp
      finally have "q * 60 < 2 powi 1006" .
      from round_double_bounded[OF p this] show ?thesis by auto
    qed
    then obtain m where "round_double (q * 60) = Some m" by blast
    with q(1) assms(2) show "\<exists>n. eta_minutes d s = Inr n"
      by (simp add: eta_minutes_def)
  qed
  show "eta_minutes 0 s = Inr 0"
    using assms(2) by (simp add: eta_minutes_def round_double_zero py_int_def)
qed

theorem eta_minutes_is_floor_witness:
  "(0::real) \<le> 2.5 \<and> (0::real) < 40 \<and> eta_minutes 2.5 40 = Inr 3 \<and>
   eta_minutes 0 40 = Inr 0"
  using eta_minutes_is_floor[of "2.5" 40]
  by (simp add: round_double_1_16 round_double_15_4)

text \<open>
  At 82 km and 40 km/h the exact value of \<open>d / s * 60\<close> is 123. The division rounds
  \<open>2.05\<close> down to a double, the multiplication rounds the product to the double just
  below 123, and the ETA is 122.
\<close>

theorem eta_minutes_floor_counterexample:
  "eta_minutes 82 40 = Inr 122 \<and> eta_min 82 = Inr 122 \<and> \<lfloor>(82::real) / 40 * 60\<rfloor> = 123"
  by (simp add: eta_minutes_def eta_min_def AVG_FIRE_TRUCK_SPEED_KMPH_def
      round_double_41_20 round_double_123[simplified] py_int_def)
















text \<open>
  C3, as amended. With an empty frame the resolver raises the built-in
  \<^verbatim>\<open>ValueError\<close>, at the assignment of the column \<^verbatim>\<open>distance_km\<close>, for every
  point and whatever the sort: the sort and \<^verbatim>\<open>iloc[0]\<close> are not reached. The
  program has no check for an empty frame and no error kind of its own.
\<close>

theorem nearest_empty_raises:
  "nearest_fire_station g srt lat lon [] = Inl ValueError"
  by (simp add: nearest_fire_station_def)

theorem nearest_empty_counterexample:
  "nearest_fire_station taxicab sort_key 0 0 [] \<noteq> Inl EmptyInputError"
  by (simp add: nearest_fire_station_def)

text \<open>
  C8, as amended. Without the override file the loader returns the two built-in
  stations. With the file it returns whatever \<^verbatim>\<open>pd.read_csv\<close> returns, a frame of
  zero rows included, and an exception of \<^verbatim>\<open>pd.read_csv\<close> reaches the caller as
  it is: the built-in stations are not used then.
\<close>

theorem load_fire_station_df_cases:
  "load_fire_station_df None = Inr DEFAULT_FIRE_STATIONS \<and> DEFAULT_FIRE_STATIONS \<noteq> [] \<and>
   load_fire_station_df (Some (Inr df)) = Inr df \<and>
   load_fire_station_df (Some (Inl e)) = Inl e"
  by (simp add: DEFAULT_FIRE_STATIONS_def)

theorem load_fire_station_df_counterexample:
  "load_fire_station_df (Some (Inr [])) = Inr [] \<and>
   load_fire_station_df (Some (Inl ParserError)) \<noteq> Inl SourceMalformedError"
  by simp

section \<open>Properties of the timestamps\<close>

text \<open>
  The printed timestamp has fields of fixed width, so the order of two timestamps as
  texts is the order of the clock readings they print, compared down to the second.
\<close>

declare dec.simps [simp del]

lemma lt10_cases: "(d::nat) < 10 \<Longrightarrow> d = 0 \<or> d = 1 \<or> d = 2 \<or> d = 3 \<or> d = 4 \<or> d = 5 \<or> d = 6 \<or> d = 7 \<or> d = 8 \<or> d = 9"
  by arith

lemma of_char_digit: "d < 10 \<Longrightarrow> (of_char (digit d) :: nat) = 48 + d"
  by (drule lt10_cases) (auto simp: digit_def)

lemma digit_less: "a < 10 \<Longrightarrow> b < 10 \<Longrightarrow> digit a < digit b \<longleftrightarrow> a < b"
  by (simp add: less_char_def of_char_digit)

lemma digit_eq: "a < 10 \<Longrightarrow> b < 10 \<Longrightarrow> digit a = digit b \<longleftrightarrow> a = b"
proof
  assume "a < 10" "b < 10" "digit a = digit b"
  then have "(of_char (digit a) :: nat) = of_char (digit b)" by simp
  with \<open>a < 10\<close> \<open>b < 10\<close> show "a = b" by (simp add: of_char_digit)
qed simp

lemma dec_1: "n < 10 \<Longrightarrow> dec n = [digit n]"
  by (subst dec.simps) simp

lemma dec_2: "10 \<le> n \<Longrightarrow> n < 100 \<Longrightarrow> dec n = [digit (n div 10), digit (n mod 10)]"
  by (subst dec.simps) (simp add: dec_1)

lemma dec_3: "100 \<le> n \<Longrightarrow> n < 1000 \<Longrightarrow>
    dec n = [digit (n div 100), digit (n div 10 mod 10), digit (n mod 10)]"
proof -
  assume a: "100 \<le> n" "n < 1000"
  then have b: "10 \<le> n div 10" "n div 10 < 100" by auto
  have c: "n div 10 div 10 = n div 100" by (simp add: div_mult2_eq[symmetric])
  show ?thesis using a by (subst dec.simps) (simp add: dec_2[OF b] c)
qed

lemma dec_4: "1000 \<le> n \<Longrightarrow> n < 10000 \<Longrightarrow>
    dec n = [digit (n div 1000), digit (n div 100 mod 10), digit (n div 10 mod 10), digit (n mod 10)]"
proof -
  assume a: "1000 \<le> n" "n < 10000"
  then have b: "100 \<le> n div 10" "n div 10 < 1000" by auto
  have c: "n div 10 div 100 = n div 1000" "n div 10 div 10 = n div 100"
    by (simp_all add: div_mult2_eq[symmetric])
  show ?thesis using a by (subst dec.simps) (simp add: dec_3[OF b] c)
qed

lemma digit_0: "digit 0 = CHR ''0''"
  by (simp add: digit_def)

lemma replicate_3: "replicate 3 c = [c, c, c]"
  by (simp add: numeral_3_eq_3)

lemma replicate_2: "replicate 2 c = [c, c]"
  by (simp add: numeral_2_eq_2)

lemma zero_pad_2: "n < 100 \<Longrightarrow> zero_pad 2 n = [digit (n div 10), digit (n mod 10)]"
proof (cases "n < 10")
  case True
  then show ?thesis by (simp add: zero_pad_def dec_1 digit_0)
next
  case False
  assume "n < 100"
  with False show ?thesis by (simp add: zero_pad_def dec_2)
qed

lemma zero_pad_4: "n < 10000 \<Longrightarrow>
  zero_pad 4 n = [digit (n div 1000), digit (n div 100 mod 10), digit (n div 10 mod 10), digit (n mod 10)]"
proof -
  assume n: "n < 10000"
  consider "n < 10" | "10 \<le> n" "n < 100" | "100 \<le> n" "n < 1000" | "1000 \<le> n" by linarith
  then show ?thesis
  proof cases
    case 1 then show ?thesis by (simp add: zero_pad_def dec_1 digit_0 replicate_3)
  next
    case 2 then show ?thesis by (simp add: zero_pad_def dec_2 digit_0 replicate_2)
  next
    case 3 then show ?thesis by (simp add: zero_pad_def dec_3 digit_0)
  next
    case 4 then show ?thesis using n by (simp add: zero_pad_def dec_4)
  qed
qed

lemma lex_E10:
  fixes a b :: nat
  shows "(a div 10 = b div 10 \<and> a mod 10 = b mod 10) = (a = b)"
  by (metis div_mult_mod_eq)

lemma lex_F10:
  fixes a b :: nat
  shows "(a div 10 < b div 10 \<or> a div 10 = b div 10 \<and> a mod 10 < b mod 10) = (a < b)"
proof -
  have a: "a = 10 * (a div 10) + a mod 10" and b: "b = 10 * (b div 10) + b mod 10" by simp_all
  have ma: "a mod 10 < 10" and mb: "b mod 10 < 10" by simp_all
  show ?thesis using a b ma mb by linarith
qed

lemma lex_E100:
  fixes a b :: nat
  shows "(a div 100 = b div 100 \<and> a mod 100 = b mod 100) = (a = b)"
  by (metis div_mult_mod_eq)

lemma lex_F100:
  fixes a b :: nat
  shows "(a div 100 < b div 100 \<or> a div 100 = b div 100 \<and> a mod 100 < b mod 100) = (a < b)"
proof -
  have a: "a = 100 * (a div 100) + a mod 100" and b: "b = 100 * (b div 100) + b mod 100"
    by simp_all
  have ma: "a mod 100 < 100" and mb: "b mod 100 < 100" by simp_all
  show ?thesis using a b ma mb by linarith
qed

lemma lex_prop:
  "(p \<or> e \<and> (q \<or> f \<and> P)) = ((p \<or> e \<and> q) \<or> (e \<and> f) \<and> P)"
  by blast

lemma mod100_div10: "(n::nat) mod 100 div 10 = n div 10 mod 10"
proof -
  have "n mod 100 = 10 * (n div 10 mod 10) + n mod 10"
    using mod_mult2_eq[of n 10 10] by simp
  then show ?thesis by simp
qed

lemma mod100_mod10: "(n::nat) mod 100 mod 10 = n mod 10"
  by (simp add: mod_mod_cancel)

lemma div100_div10: "(n::nat) div 100 div 10 = n div 1000"
  by (simp add: div_mult2_eq[symmetric])


lemma pad2_less:
  assumes "a < 100" "b < 100"
  shows "(zero_pad 2 a @ x < zero_pad 2 b @ y) = (a < b \<or> a = b \<and> x < y)"
proof -
  have d: "a div 10 < 10" "b div 10 < 10" "a mod 10 < 10" "b mod 10 < 10" using assms by auto
  have "(zero_pad 2 a @ x < zero_pad 2 b @ y) =
    (a div 10 < b div 10 \<or> a div 10 = b div 10 \<and>
      (a mod 10 < b mod 10 \<or> a mod 10 = b mod 10 \<and> x < y))"
    by (simp add: zero_pad_2 assms digit_less digit_eq d)
  also have "\<dots> = (a < b \<or> a = b \<and> x < y)"
    unfolding lex_prop lex_F10 lex_E10 ..
  finally show ?thesis .
qed

lemma pad2_eq:
  assumes "a < 100" "b < 100"
  shows "(zero_pad 2 a @ x = zero_pad 2 b @ y) = (a = b \<and> x = y)"
proof -
  have d: "a div 10 < 10" "b div 10 < 10" "a mod 10 < 10" "b mod 10 < 10" using assms by auto
  have "(zero_pad 2 a @ x = zero_pad 2 b @ y) =
    ((a div 10 = b div 10 \<and> a mod 10 = b mod 10) \<and> x = y)"
    by (simp add: zero_pad_2 assms digit_eq d)
  then show ?thesis unfolding lex_E10 .
qed

lemma zero_pad_4_split:
  assumes "n < 10000"
  shows "zero_pad 4 n = zero_pad 2 (n div 100) @ zero_pad 2 (n mod 100)"
proof -
  have "n div 100 < 100" "n mod 100 < 100" using assms by auto
  then show ?thesis
    by (simp add: zero_pad_4 assms zero_pad_2 mod100_div10 mod100_mod10 div100_div10)
qed

lemma pad4_less:
  assumes "a < 10000" "b < 10000"
  shows "(zero_pad 4 a @ x < zero_pad 4 b @ y) = (a < b \<or> a = b \<and> x < y)"
proof -
  have d: "a div 100 < 100" "b div 100 < 100" "a mod 100 < 100" "b mod 100 < 100"
    using assms by auto
  have "(zero_pad 4 a @ x < zero_pad 4 b @ y) =
    (a div 100 < b div 100 \<or> a div 100 = b div 100 \<and>
      (a mod 100 < b mod 100 \<or> a mod 100 = b mod 100 \<and> x < y))"
    by (simp add: zero_pad_4_split assms pad2_less pad2_eq d)
  also have "\<dots> = (a < b \<or> a = b \<and> x < y)"
    unfolding lex_prop lex_F100 lex_E100 ..
  finally show ?thesis .
qed

lemma pad4_eq:
  assumes "a < 10000" "b < 10000"
  shows "(zero_pad 4 a @ x = zero_pad 4 b @ y) = (a = b \<and> x = y)"
proof -
  have d: "a div 100 < 100" "b div 100 < 100" "a mod 100 < 100" "b mod 100 < 100"
    using assms by auto
  have "(zero_pad 4 a @ x = zero_pad 4 b @ y) =
    ((a div 100 = b div 100 \<and> a mod 100 = b mod 100) \<and> x = y)"
    by (simp add: zero_pad_4_split assms pad2_eq d)
  then show ?thesis unfolding lex_E100 .
qed

lemma pad2_less_last:
  assumes "a < 100" "b < 100"
  shows "(zero_pad 2 a < zero_pad 2 b) = (a < b)"
  using pad2_less[OF assms, of "[]" "[]"] by simp

lemma pad2_eq_last:
  assumes "a < 100" "b < 100"
  shows "(zero_pad 2 a = zero_pad 2 b) = (a = b)"
  using pad2_eq[OF assms, of "[]" "[]"] by simp

lemma valid_bounds:
  assumes "valid_datetime dt"
  shows "year dt < 10000" "month dt < 100" "day dt < 100" "hour dt < 100" "minute dt < 100"
    "second dt < 100"
  using assms by (auto simp: valid_datetime_def)

lemma isoformat_less:
  assumes "valid_datetime a" "valid_datetime b"
  shows "(isoformat_seconds a < isoformat_seconds b) = (seconds_key a < seconds_key b)"
  by (simp add: isoformat_seconds_def seconds_key_def pad4_less pad2_less pad2_less_last
      valid_bounds[OF assms(1)] valid_bounds[OF assms(2)])

lemma isoformat_eq:
  assumes "valid_datetime a" "valid_datetime b"
  shows "(isoformat_seconds a = isoformat_seconds b) = (seconds_key a = seconds_key b)"
  by (simp add: isoformat_seconds_def seconds_key_def pad4_eq pad2_eq pad2_eq_last
      valid_bounds[OF assms(1)] valid_bounds[OF assms(2)])

lemma isoformat_le:
  assumes "valid_datetime a" "valid_datetime b"
  shows "(isoformat_seconds a \<le> isoformat_seconds b) = (seconds_key a \<le> seconds_key b)"
  unfolding le_less isoformat_less[OF assms] isoformat_eq[OF assms] ..

lemma datetime_le_seconds_key:
  "datetime_le a b \<Longrightarrow> seconds_key a \<le> seconds_key b"
  by (auto simp: datetime_le_def datetime_key_def seconds_key_def)

lemma isoformat_mono:
  assumes "valid_datetime a" "valid_datetime b" "datetime_le a b"
  shows "isoformat_seconds a \<le> isoformat_seconds b"
  using isoformat_le[OF assms(1,2)] datetime_le_seconds_key[OF assms(3)] by simp

lemma isoformat_microsecond:
  "isoformat_seconds (dt\<lparr>microsecond := us\<rparr>) = isoformat_seconds dt"
  by (simp add: isoformat_seconds_def)

section \<open>Properties of the incident log\<close>

lemma log_event_session:
  "session_log (snd (log_event now outcome st loc n w)) =
     Some ((case session_log w of None \<Rightarrow> [] | Some l \<Rightarrow> l) @ [new_entry now st loc n])"
  by (simp add: log_event_def Let_def split: write_outcome.split option.split)

lemma log_event_Written:
  "log_event now Written st loc n w =
     (Inr (),
      \<lparr>session_log =
         Some ((case session_log w of None \<Rightarrow> [] | Some l \<Rightarrow> l) @ [new_entry now st loc n]),
       log_file =
         Some (to_csv ((case session_log w of None \<Rightarrow> [] | Some l \<Rightarrow> l) @
           [new_entry now st loc n]))\<rparr>)"
  by (cases w) (simp add: log_event_def Let_def split: option.split)

lemma log_event_Failed:
  "log_event now (Failed leftover) st loc n w =
     (Inl OSError,
      \<lparr>session_log =
         Some ((case session_log w of None \<Rightarrow> [] | Some l \<Rightarrow> l) @ [new_entry now st loc n]),
       log_file = leftover\<rparr>)"
  by (cases w) (simp add: log_event_def Let_def split: option.split)

text \<open>
  C4, as amended. \<^verbatim>\<open>log_event\<close> does not look at the status: for every status
  text it appends the entry with that status to the session log, and it returns
  normally when the file is written. The only exception it raises is the
  \<^verbatim>\<open>OSError\<close> of a failed write, whatever the status.
\<close>

theorem log_event_any_status:
  "fst (log_event now Written st loc n w) = Inr () \<and>
   fst (log_event now (Failed leftover) st loc n w) = Inl OSError \<and>
   session_log (snd (log_event now outcome st loc n w)) =
     Some ((case session_log w of None \<Rightarrow> [] | Some l \<Rightarrow> l) @ [new_entry now st loc n]) \<and>
   status (new_entry now st loc n) = Str st"
  by (simp add: log_event_Written log_event_Failed log_event_session new_entry_def)

theorem log_event_unknown_status_counterexample:
  "log_event
     \<lparr>year = 2024, month = 1, day = 1, hour = 12, minute = 0, second = 0, microsecond = 0\<rparr>
     Written ''BOGUS'' ''Admin Block'' None \<lparr>session_log = None, log_file = None\<rparr> =
   (Inr (),
    \<lparr>session_log = Some [\<lparr>timestamp = Str ''2024-01-01T12:00:00'', status = Str ''BOGUS'',
         location = Str ''Admin Block'', notes = Str ''''\<rparr>],
     log_file = Some (Table [\<lparr>timestamp = ''2024-01-01T12:00:00'', status = ''BOGUS'',
         location = ''Admin Block'', notes = ''''\<rparr>])\<rparr>)"
  by (simp add: log_event_Written new_entry_def dec.simps isoformat_seconds_def zero_pad_def digit_def
      to_csv_def map_entry_def)

text \<open>
  C10. When the session has no log yet, \<^verbatim>\<open>log_event\<close> makes the empty log and
  appends to it: afterwards the session log is the one new entry, whose four fields are
  the timestamp, the status, the location and the notes (the empty text when the
  argument is left out). The missing log raises nothing: with a written file the call
  returns normally and the file holds that one entry. The append comes before the write:
  when the write fails, the session log holds the entry all the same.
\<close>

theorem log_event_without_log:
  assumes "session_log w = None"
  shows "session_log (snd (log_event now outcome st loc n w)) = Some [new_entry now st loc n] \<and>
     new_entry now st loc None =
       \<lparr>timestamp = Str (isoformat_seconds now), status = Str st, location = Str loc,
        notes = Str ''''\<rparr> \<and>
     log_event now Written st loc n w =
       (Inr (),
        \<lparr>session_log = Some [new_entry now st loc n],
         log_file = Some (to_csv [new_entry now st loc n])\<rparr>) \<and>
     log_event now (Failed leftover) st loc n w =
       (Inl OSError, \<lparr>session_log = Some [new_entry now st loc n], log_file = leftover\<rparr>)"
  using assms by (simp add: log_event_Written log_event_Failed log_event_session new_entry_def)

theorem log_event_without_log_witness:
  "session_log \<lparr>session_log = None, log_file = None\<rparr> = None \<and>
   log_event
     \<lparr>year = 2024, month = 1, day = 1, hour = 12, minute = 0, second = 0, microsecond = 0\<rparr>
     Written ''CALL_PLACED'' ''GPS'' None \<lparr>session_log = None, log_file = None\<rparr> =
   (Inr (),
    \<lparr>session_log = Some [\<lparr>timestamp = Str ''2024-01-01T12:00:00'',
         status = Str ''CALL_PLACED'', location = Str ''GPS'', notes = Str ''''\<rparr>],
     log_file = Some (Table [\<lparr>timestamp = ''2024-01-01T12:00:00'',
         status = ''CALL_PLACED'', location = ''GPS'', notes = ''''\<rparr>])\<rparr>)"
  using log_event_without_log[of "\<lparr>session_log = None, log_file = None\<rparr>"
      "\<lparr>year = 2024, month = 1, day = 1, hour = 12, minute = 0, second = 0, microsecond = 0\<rparr>"
      Written "''CALL_PLACED''" "''GPS''" None None]
  by (simp add: new_entry_def dec.simps isoformat_seconds_def zero_pad_def digit_def to_csv_def
      map_entry_def)

lemma button_dial_session:
  "session_log (snd (button_dial now outcome sel w)) =
     Some ((case session_log w of None \<Rightarrow> [] | Some l \<Rightarrow> l) @
       [new_entry now ''CALL_PLACED'' (or_GPS sel) None])"
proof (cases "log_event now outcome ''CALL_PLACED'' (or_GPS sel) None w")
  case (Pair r w')
  with log_event_session[of now outcome "''CALL_PLACED''" "or_GPS sel" None w]
  show ?thesis by (cases r) (simp_all add: button_dial_def)
qed

lemma button_resolved_session:
  "session_log (snd (button_resolved now outcome sel w)) =
     Some ((case session_log w of None \<Rightarrow> [] | Some l \<Rightarrow> l) @
       [new_entry now ''RESOLVED'' (or_GPS sel) None])"
proof (cases "log_event now outcome ''RESOLVED'' (or_GPS sel) None w")
  case (Pair r w')
  with log_event_session[of now outcome "''RESOLVED''" "or_GPS sel" None w]
  show ?thesis by (cases r) (simp_all add: button_resolved_def)
qed

text \<open>
  C5, as amended. In a session whose log is absent or empty, the button that logs the
  call and then the button that marks the incident resolved, both at the location
  \<^verbatim>\<open>Admin Block\<close>, leave a log of exactly two entries, both with that location,
  with the statuses \<^verbatim>\<open>CALL_PLACED\<close> and \<^verbatim>\<open>RESOLVED\<close> in that order and empty
  notes, whatever the outcome of the file writes. The timestamps are the two clock
  readings printed to the second: they are in non-decreasing order when the second
  reading is not earlier than the first, and they are equal exactly when the two
  readings agree down to the second.
\<close>

theorem call_then_resolved:
  assumes "session_log w = None \<or> session_log w = Some []"
  shows "session_log
           (snd (button_resolved now2 o2 (Some ''Admin Block'')
             (snd (button_dial now1 o1 (Some ''Admin Block'') w)))) =
         Some [\<lparr>timestamp = Str (isoformat_seconds now1), status = Str ''CALL_PLACED'',
                 location = Str ''Admin Block'', notes = Str ''''\<rparr>,
               \<lparr>timestamp = Str (isoformat_seconds now2), status = Str ''RESOLVED'',
                 location = Str ''Admin Block'', notes = Str ''''\<rparr>] \<and>
         (valid_datetime now1 \<and> valid_datetime now2 \<and> datetime_le now1 now2 \<longrightarrow>
            isoformat_seconds now1 \<le> isoformat_seconds now2) \<and>
         (valid_datetime now1 \<and> valid_datetime now2 \<longrightarrow>
            (isoformat_seconds now1 = isoformat_seconds now2) =
            (seconds_key now1 = seconds_key now2))"
  using assms
  by (auto simp: button_dial_session button_resolved_session new_entry_def or_GPS_def
      isoformat_mono isoformat_eq)

theorem call_then_resolved_witness:
  "session_log
     (snd (button_resolved
        \<lparr>year = 2024, month = 1, day = 1, hour = 12, minute = 0, second = 5, microsecond = 0\<rparr>
        Written (Some ''Admin Block'')
        (snd (button_dial
           \<lparr>year = 2024, month = 1, day = 1, hour = 12, minute = 0, second = 0,
              microsecond = 100000\<rparr>
           Written (Some ''Admin Block'') \<lparr>session_log = None, log_file = None\<rparr>)))) =
   Some [\<lparr>timestamp = Str ''2024-01-01T12:00:00'', status = Str ''CALL_PLACED'',
           location = Str ''Admin Block'', notes = Str ''''\<rparr>,
         \<lparr>timestamp = Str ''2024-01-01T12:00:05'', status = Str ''RESOLVED'',
           location = Str ''Admin Block'', notes = Str ''''\<rparr>] \<and>
   ''2024-01-01T12:00:00'' \<le> ''2024-01-01T12:00:05'' \<and>
   ''2024-01-01T12:00:00'' \<noteq> ''2024-01-01T12:00:05''"
  using call_then_resolved[of "\<lparr>session_log = None, log_file = None\<rparr>"
      "\<lparr>year = 2024, month = 1, day = 1, hour = 12, minute = 0, second = 5, microsecond = 0\<rparr>"
      Written
      "\<lparr>year = 2024, month = 1, day = 1, hour = 12, minute = 0, second = 0,
          microsecond = 100000\<rparr>" Written]
  by (simp add: dec.simps isoformat_seconds_def zero_pad_def digit_def valid_datetime_def
      datetime_le_def datetime_key_def seconds_key_def)

theorem call_then_resolved_counterexample:
  "map timestamp (the (session_log
     (snd (button_resolved
        \<lparr>year = 2024, month = 1, day = 1, hour = 12, minute = 0, second = 0,
           microsecond = 900000\<rparr>
        Written (Some ''Admin Block'')
        (snd (button_dial
           \<lparr>year = 2024, month = 1, day = 1, hour = 12, minute = 0, second = 0,
              microsecond = 100000\<rparr>
           Written (Some ''Admin Block'') \<lparr>session_log = None, log_file = None\<rparr>)))))) =
   [Str ''2024-01-01T12:00:00'', Str ''2024-01-01T12:00:00'']"
  by (simp add: button_dial_session button_resolved_session new_entry_def or_GPS_def
      dec.simps isoformat_seconds_def zero_pad_def digit_def)

text \<open>
  C6, as amended. When the write fails during an append, the session log holds the new
  entry, and the \<^verbatim>\<open>OSError\<close> of the write leaves \<^verbatim>\<open>log_event\<close> and the button
  handler that called it: no warning is shown and no success message. The next append
  whose write succeeds writes the whole session log, the entry of the failed append
  included.
\<close>

theorem write_failure_then_success:
  "log_event now1 (Failed leftover) st1 loc1 n1 w =
     (Inl OSError,
      \<lparr>session_log =
         Some ((case session_log w of None \<Rightarrow> [] | Some l \<Rightarrow> l) @
           [new_entry now1 st1 loc1 n1]),
       log_file = leftover\<rparr>) \<and>
   button_dial now1 (Failed leftover) sel w =
     (Inl OSError, snd (log_event now1 (Failed leftover) ''CALL_PLACED'' (or_GPS sel) None w)) \<and>
   button_resolved now1 (Failed leftover) sel w =
     (Inl OSError, snd (log_event now1 (Failed leftover) ''RESOLVED'' (or_GPS sel) None w)) \<and>
   log_event now2 Written st2 loc2 n2 (snd (log_event now1 (Failed leftover) st1 loc1 n1 w)) =
     (Inr (),
      \<lparr>session_log =
         Some ((case session_log w of None \<Rightarrow> [] | Some l \<Rightarrow> l) @
           [new_entry now1 st1 loc1 n1, new_entry now2 st2 loc2 n2]),
       log_file =
         Some (to_csv ((case session_log w of None \<Rightarrow> [] | Some l \<Rightarrow> l) @
           [new_entry now1 st1 loc1 n1, new_entry now2 st2 loc2 n2]))\<rparr>)"
  by (simp add: log_event_Written log_event_Failed button_dial_def button_resolved_def)

theorem write_failure_counterexample:
  "button_dial
     \<lparr>year = 2024, month = 1, day = 1, hour = 12, minute = 0, second = 0, microsecond = 0\<rparr>
     (Failed None) (Some ''Admin Block'') \<lparr>session_log = None, log_file = None\<rparr> =
   (Inl OSError,
    \<lparr>session_log = Some [\<lparr>timestamp = Str ''2024-01-01T12:00:00'',
         status = Str ''CALL_PLACED'', location = Str ''Admin Block'', notes = Str ''''\<rparr>],
     log_file = None\<rparr>)"
  by (simp add: button_dial_def log_event_Failed or_GPS_def new_entry_def
      dec.simps isoformat_seconds_def zero_pad_def digit_def)

text \<open>
  C7, at an input where the program does not do what the claim says. One entry is
  appended with the default notes in a session without a log or a file. The file then
  holds the entry with an empty notes field, and a fresh session that loads the file
  gets the entry with the notes NaN in place of the empty text.
\<close>

theorem log_roundtrip_notes_nan:
  "log_event
     \<lparr>year = 2024, month = 1, day = 1, hour = 12, minute = 0, second = 0, microsecond = 0\<rparr>
     Written ''CALL_PLACED'' ''Admin Block'' None \<lparr>session_log = None, log_file = None\<rparr> =
   (Inr (),
    \<lparr>session_log = Some [\<lparr>timestamp = Str ''2024-01-01T12:00:00'',
         status = Str ''CALL_PLACED'', location = Str ''Admin Block'', notes = Str ''''\<rparr>],
     log_file = Some (Table [\<lparr>timestamp = ''2024-01-01T12:00:00'',
         status = ''CALL_PLACED'', location = ''Admin Block'', notes = ''''\<rparr>])\<rparr>) \<and>
   load_existing_log
     \<lparr>session_log = None,
      log_file = Some (Table [\<lparr>timestamp = ''2024-01-01T12:00:00'',
         status = ''CALL_PLACED'', location = ''Admin Block'', notes = ''''\<rparr>])\<rparr> =
   Inr \<lparr>session_log = Some [\<lparr>timestamp = Str ''2024-01-01T12:00:00'',
            status = Str ''CALL_PLACED'', location = Str ''Admin Block'', notes = NaN\<rparr>],
        log_file = Some (Table [\<lparr>timestamp = ''2024-01-01T12:00:00'',
            status = ''CALL_PLACED'', location = ''Admin Block'', notes = ''''\<rparr>])\<rparr>"
  by (simp add: log_event_Written new_entry_def dec.simps isoformat_seconds_def zero_pad_def digit_def
      to_csv_def map_entry_def load_existing_log_def parse_field_def STR_NA_VALUES_def)

end
